theory Spec2Isabelle
  imports Complex_Main
begin

section \<open>Python values, exceptions and byte strings\<close>

text \<open>
  The session engine of \<^verbatim>\<open>duck_chat/api.py\<close> is embedded as pure functions over an explicit
  session state. A byte string (\<^verbatim>\<open>bytes\<close>) is a list of 8-bit characters. A Python
  \<^verbatim>\<open>str\<close> is represented by its UTF-8 encoding, so \<^verbatim>\<open>bytes.decode()\<close> is the identity on
  well-formed UTF-8 and raises \<^verbatim>\<open>UnicodeDecodeError\<close> otherwise.
\<close>

type_synonym bytes = string

text \<open>
  What \<^verbatim>\<open>msgspec.json.Decoder().decode\<close> can return: \<^verbatim>\<open>None\<close>, booleans, integers, floats
  (a finite double, given by its exact rational value), strings, lists and dicts. A dict is
  the list of its items; a key is looked up with \<open>map_of\<close>.
\<close>

datatype pyval =
    PNone
  | PBool bool
  | PInt int
  | PFloat rat
  | PStr string
  | PList "pyval list"
  | PDict "(string \<times> pyval) list"

text \<open>
  The argument an exception is raised with. \<open>Text s\<close> is a string built by the code,
  \<open>Given v\<close> a decoded value passed on as it is, \<open>StrOf x\<close> stands for \<^verbatim>\<open>str(x)\<close> of a decoded
  record \<open>x\<close>, and \<open>ErrorWhileStreaming e\<close> for the f-string
  \<^verbatim>\<open>f"Error while streaming data: {str(e)}"\<close>.

  \<open>RatelimitException\<close>, \<open>ConversationLimitException\<close> and \<open>DuckChatException\<close> are the three
  classes imported from \<^verbatim>\<open>.exceptions\<close>; the others are Python's built-in exceptions that the
  code can raise.
\<close>

datatype py_error =
    RatelimitException exc_arg
  | ConversationLimitException exc_arg
  | DuckChatException exc_arg
  | GeneratorExit string
  | IndexError
  | AttributeError
  | TypeError
  | UnicodeDecodeError
and exc_arg =
    Text string
  | Given pyval
  | StrOf pyval
  | ErrorWhileStreaming py_error

subsection \<open>Truth values, equality with a number, \<^verbatim>\<open>dict.get\<close>\<close>

fun truthy :: "pyval \<Rightarrow> bool" where
  "truthy PNone = False"
| "truthy (PBool b) = b"
| "truthy (PInt i) = (i \<noteq> 0)"
| "truthy (PFloat r) = (r \<noteq> 0)"
| "truthy (PStr s) = (s \<noteq> [])"
| "truthy (PList xs) = (xs \<noteq> [])"
| "truthy (PDict kvs) = (kvs \<noteq> [])"

text \<open>\<^verbatim>\<open>v == n\<close> for an integer literal \<open>n\<close>: Python compares numbers by value, and
  \<^verbatim>\<open>True\<close> and \<^verbatim>\<open>False\<close> are the integers 1 and 0.\<close>

fun eq_int :: "pyval \<Rightarrow> int \<Rightarrow> bool" where
  "eq_int (PInt i) n = (i = n)"
| "eq_int (PFloat r) n = (r = of_int n)"
| "eq_int (PBool b) n = ((if b then 1 else 0) = n)"
| "eq_int _ n = False"

text \<open>\<^verbatim>\<open>d.get(k, default)\<close> on the items of a dict.\<close>

definition dict_get :: "(string \<times> pyval) list \<Rightarrow> string \<Rightarrow> pyval \<Rightarrow> pyval" where
  "dict_get kvs k d = (case map_of kvs k of None \<Rightarrow> d | Some v \<Rightarrow> v)"

subsection \<open>Byte string operations\<close>

text \<open>\<^verbatim>\<open>bytes.lstrip(chars)\<close> and \<^verbatim>\<open>bytes.rstrip(chars)\<close> remove every leading (trailing)
  byte that occurs in \<open>chars\<close>: the argument is a set of bytes, not a prefix.\<close>

definition lstrip :: "bytes \<Rightarrow> bytes \<Rightarrow> bytes" where
  "lstrip chars s = dropWhile (\<lambda>c. c \<in> set chars) s"

definition rstrip :: "bytes \<Rightarrow> bytes \<Rightarrow> bytes" where
  "rstrip chars s = rev (dropWhile (\<lambda>c. c \<in> set chars) (rev s))"

definition startswith :: "bytes \<Rightarrow> bytes \<Rightarrow> bool" where
  "startswith s p = (take (length p) s = p)"

text \<open>\<^verbatim>\<open>s.split(sep)\<close> for a non-empty separator: the pieces between the occurrences of
  \<open>sep\<close>, found from the left; \<open>cur\<close> is the piece being read. Python raises
  \<^verbatim>\<open>ValueError\<close> on an empty separator; the code only splits at a constant.\<close>

function split_from :: "bytes \<Rightarrow> bytes \<Rightarrow> bytes \<Rightarrow> bytes list" where
  "split_from sep cur [] = [cur]"
| "split_from sep cur (c # cs) =
     (if sep \<noteq> [] \<and> startswith (c # cs) sep
      then cur # split_from sep [] (drop (length sep) (c # cs))
      else split_from sep (cur @ [c]) cs)"
  by pat_completeness auto
termination
  by (relation "measure (\<lambda>(sep, cur, s). length s)") auto

definition split :: "bytes \<Rightarrow> bytes \<Rightarrow> bytes list" where
  "split s sep = split_from sep [] s"

text \<open>\<^verbatim>\<open>sep.join(parts)\<close>.\<close>

fun join :: "bytes \<Rightarrow> bytes list \<Rightarrow> bytes" where
  "join sep [] = []"
| "join sep [p] = p"
| "join sep (p # q # ps) = p @ sep @ join sep (q # ps)"

text \<open>Well-formed UTF-8 (RFC 3629), on the codes of the bytes.\<close>

definition cont :: "nat \<Rightarrow> bool" where
  "cont b = (128 \<le> b \<and> b \<le> 191)"

fun utf8_codes :: "nat list \<Rightarrow> bool" where
  "utf8_codes [] = True"
| "utf8_codes (a # bs) =
     (if a \<le> 127 then utf8_codes bs
      else if 194 \<le> a \<and> a \<le> 223 then
        (case bs of b # r \<Rightarrow> cont b \<and> utf8_codes r | _ \<Rightarrow> False)
      else if 224 \<le> a \<and> a \<le> 239 then
        (case bs of b # c # r \<Rightarrow>
            cont b \<and> cont c \<and> (if a = 224 then 160 \<le> b else True)
            \<and> (if a = 237 then b \<le> 159 else True)
            \<and> utf8_codes r
         | _ \<Rightarrow> False)
      else if 240 \<le> a \<and> a \<le> 244 then
        (case bs of b # c # d # r \<Rightarrow>
            cont b \<and> cont c \<and> cont d \<and> (if a = 240 then 144 \<le> b else True)
            \<and> (if a = 244 then b \<le> 143 else True)
            \<and> utf8_codes r
         | _ \<Rightarrow> False)
      else False)"

text \<open>\<^verbatim>\<open>res.decode()\<close>.\<close>

definition decode_utf8 :: "bytes \<Rightarrow> py_error + string" where
  "decode_utf8 res = (if utf8_codes (map of_char res) then Inr res else Inl UnicodeDecodeError)"

text \<open>\<^verbatim>\<open>str(n)\<close> of an integer.\<close>

fun digits :: "nat \<Rightarrow> string" where
  "digits n = (if n < 10 then [char_of (48 + n)] else digits (n div 10) @ [char_of (48 + n mod 10)])"

definition str_int :: "int \<Rightarrow> string" where
  "str_int i = (if i < 0 then CHR ''-'' # digits (nat (- i)) else digits (nat i))"

text \<open>\<^verbatim>\<open>"".join(message)\<close>: \<^verbatim>\<open>TypeError\<close> unless every item is a string.\<close>

fun join_str :: "pyval list \<Rightarrow> py_error + string" where
  "join_str [] = Inr []"
| "join_str (PStr s # xs) = (case join_str xs of Inl e \<Rightarrow> Inl e | Inr t \<Rightarrow> Inr (s @ t))"
| "join_str (_ # xs) = Inl TypeError"

section \<open>The data model\<close>

datatype role = User | Assistant

record Message =
  role :: role
  content :: string

text \<open>
  Modelled from the spec: the class \<^verbatim>\<open>History\<close> of \<^verbatim>\<open>duck_chat/models.py\<close> (with
  \<^verbatim>\<open>Message\<close> and \<^verbatim>\<open>ModelType\<close>), which \<^verbatim>\<open>api.py\<close> imports. The conversation history is the
  selected model identifier and the ordered sequence of messages; \<open>add_input\<close> appends a user
  message and \<open>add_answer\<close> appends an assistant message.
\<close>

record History =
  model :: string
  messages :: "Message list"

definition add_input :: "History \<Rightarrow> string \<Rightarrow> History" where
  "add_input h text = h\<lparr>messages := messages h @ [\<lparr>role = User, content = text\<rparr>]\<rparr>"

definition add_answer :: "History \<Rightarrow> string \<Rightarrow> History" where
  "add_answer h text = h\<lparr>messages := messages h @ [\<lparr>role = Assistant, content = text\<rparr>]\<rparr>"

text \<open>
  The two requests the session sends: the handshake \<^verbatim>\<open>GET /duckchat/v1/status\<close>, and the turn
  \<^verbatim>\<open>POST /duckchat/v1/chat\<close> with its \<^verbatim>\<open>x-vqd-4\<close> header and the encoded history. A response
  is its status, its body and the value of its \<^verbatim>\<open>x-vqd-4\<close> header, if it has one.
\<close>

datatype request = Handshake | Turn string History

record response =
  status :: int
  body :: bytes
  vqd_header :: "string option"

text \<open>
  The fields of a \<^verbatim>\<open>DuckChat\<close> instance that the operations read and write. \<open>sent\<close> is not a
  field of the class: it records the requests issued so far, so that what goes over the
  network can be stated. The service is a function from the number of requests already
  sent to the response of the next one; the decoder \<^verbatim>\<open>msgspec.json.Decoder().decode\<close> is a
  function that returns \<open>None\<close> where the library raises.
\<close>

record DuckChat =
  vqd :: "string list"
  history :: History
  max_retries :: int
  delay :: int
  sent :: "request list"

type_synonym network = "nat \<Rightarrow> response"
type_synonym decoder = "bytes \<Rightarrow> pyval option"

text \<open>Issuing a request: it is recorded, and the service's response is read.\<close>

definition send :: "network \<Rightarrow> request \<Rightarrow> DuckChat \<Rightarrow> response \<times> DuckChat" where
  "send net req st = (net (length (sent st)), st\<lparr>sent := sent st @ [req]\<rparr>)"

text \<open>\<^verbatim>\<open>xs[:n]\<close>: a negative \<open>n\<close> counts from the end of the list.\<close>

definition slice_to :: "'a list \<Rightarrow> int \<Rightarrow> 'a list" where
  "slice_to xs n = (if 0 \<le> n then take (nat n) xs else take (nat (int (length xs) + n)) xs)"

section \<open>The buffered turn: \<^verbatim>\<open>get_answer\<close>\<close>

text \<open>
  The framing of the buffered body, as the code writes it:
  \<^verbatim>\<open>b"[" + b",".join(res.lstrip(b"data: ").rstrip(b"\n\ndata: [DONE][LIMIT_CONVERSATION]\n")
     .split(b"\n\ndata: ")) + b"]"\<close>.
\<close>

definition frame :: "bytes \<Rightarrow> bytes" where
  "frame res =
     ''['' @ join '',''
       (split
         (rstrip ''\<newline>\<newline>data: [DONE][LIMIT_CONVERSATION]\<newline>'' (lstrip ''data: '' res))
         ''\<newline>\<newline>data: '')
     @ '']''"

text \<open>
  The \<^verbatim>\<open>for x in data\<close> loop. It ends in an exception, in \<^verbatim>\<open>has_error = True; break\<close>
  (\<open>Blocked\<close>), or at the end of the records with the collected \<^verbatim>\<open>message\<close> list.
  \<^verbatim>\<open>x.get\<close> raises \<^verbatim>\<open>AttributeError\<close> on a record that is not a dict. \<open>err_message\<close> is
  \<^verbatim>\<open>x.get("type", "") or str(x)\<close>; the text \<^verbatim>\<open>str(x)\<close> of a dict starts with a brace, so it
  is none of the two type names it is compared with.
\<close>

datatype scan = Blocked | Collected "pyval list"

definition err_message :: "(string \<times> pyval) list \<Rightarrow> exc_arg" where
  "err_message kvs =
     (let t = dict_get kvs ''type'' (PStr []) in if truthy t then Given t else StrOf (PDict kvs))"

fun scan_records :: "pyval list \<Rightarrow> pyval list \<Rightarrow> py_error + scan" where
  "scan_records [] message = Inr (Collected message)"
| "scan_records (PDict kvs # xs) message =
     (if dict_get kvs ''action'' PNone = PStr ''error'' then
        (if err_message kvs = Given (PStr ''ERR_BN_LIMIT'') then Inr Blocked
         else if eq_int (dict_get kvs ''status'' PNone) 429 then
           (if err_message kvs = Given (PStr ''ERR_CONVERSATION_LIMIT'')
            then Inl (ConversationLimitException (err_message kvs))
            else Inl (RatelimitException (err_message kvs)))
         else Inl (DuckChatException (err_message kvs)))
      else scan_records xs (message @ [dict_get kvs ''message'' (PStr [])]))"
| "scan_records (_ # xs) message = Inl AttributeError"

text \<open>What \<^verbatim>\<open>for x in data\<close> iterates over: the items of a list, the keys of a dict, the
  characters of a string; any other value is not iterable.\<close>

fun iterate :: "pyval \<Rightarrow> py_error + pyval list" where
  "iterate (PList xs) = Inr xs"
| "iterate (PDict kvs) = Inr (map (\<lambda>kv. PStr (fst kv)) kvs)"
| "iterate (PStr s) = Inr (map (\<lambda>c. PStr [c]) s)"
| "iterate _ = Inl TypeError"

text \<open>Raising an exception class with \<^verbatim>\<open>prefix + res.decode()\<close>: the decoding comes first
  and may raise itself.\<close>

definition raise_decoded :: "(exc_arg \<Rightarrow> py_error) \<Rightarrow> string \<Rightarrow> bytes \<Rightarrow> py_error" where
  "raise_decoded exc prefix res =
     (case decode_utf8 res of Inl e \<Rightarrow> e | Inr s \<Rightarrow> exc (Text (prefix @ s)))"

text \<open>
  One pass through the body of the \<^verbatim>\<open>while\<close> loop of \<^verbatim>\<open>get_answer\<close>, up to the point where
  the pass returns, raises or goes on to the next attempt (\<open>Retry\<close>). \<^verbatim>\<open>self.vqd[-1]\<close> is
  evaluated before the request is issued and raises \<^verbatim>\<open>IndexError\<close> on an empty ledger. On
  success the token is appended before \<^verbatim>\<open>"".join(message)\<close> is evaluated.
\<close>

datatype 'a outcome = Return 'a | Raise py_error | Retry

definition header_or_empty :: "response \<Rightarrow> string" where
  "header_or_empty response = (case vqd_header response of None \<Rightarrow> [] | Some t \<Rightarrow> t)"

definition attempt_once :: "decoder \<Rightarrow> network \<Rightarrow> DuckChat \<Rightarrow> string outcome \<times> DuckChat" where
  "attempt_once dec net st =
     (if vqd st = [] then (Raise IndexError, st)
      else
        let (response, st1) = send net (Turn (last (vqd st)) (history st)) st;
            res = body response
        in if status response = 429 then (Raise (raise_decoded RatelimitException [] res), st1)
           else
             (case dec (frame res) of
                None \<Rightarrow> (Raise (raise_decoded DuckChatException ''Couldn't parse body='' res), st1)
              | Some data \<Rightarrow>
                  (case iterate data of
                     Inl e \<Rightarrow> (Raise e, st1)
                   | Inr xs \<Rightarrow>
                       (case scan_records xs [] of
                          Inl e \<Rightarrow> (Raise e, st1)
                        | Inr Blocked \<Rightarrow> (Retry, st1)
                        | Inr (Collected message) \<Rightarrow>
                            let st2 = st1\<lparr>vqd := vqd st1 @ [header_or_empty response]\<rparr>
                            in (case join_str message of
                                  Inl e \<Rightarrow> (Raise e, st2)
                                | Inr text \<Rightarrow> (Return text, st2))))))"

text \<open>The \<^verbatim>\<open>while attempt < self.max_retries\<close> loop. \<^verbatim>\<open>asyncio.sleep\<close> between two attempts
  changes nothing of the session.\<close>

function get_answer_from :: "decoder \<Rightarrow> network \<Rightarrow> int \<Rightarrow> DuckChat \<Rightarrow> (py_error + string) \<times> DuckChat" where
  "get_answer_from dec net attempt st =
     (if attempt < max_retries st then
        (case attempt_once dec net st of
           (Return text, st1) \<Rightarrow> (Inr text, st1)
         | (Raise e, st1) \<Rightarrow> (Inl e, st1)
         | (Retry, st1) \<Rightarrow> get_answer_from dec net (attempt + 1) st1)
      else
        (Inl (DuckChatException
           (Text (''ERR_BN_LIMIT after '' @ str_int (max_retries st) @ '' attempts''))), st))"
  by pat_completeness auto
termination
  by (relation "measure (\<lambda>(dec, net, attempt, st). nat (max_retries st - attempt))")
     (auto simp: attempt_once_def send_def Let_def
           split: if_splits option.splits sum.splits scan.splits)

declare get_answer_from.simps [simp del]

definition get_answer :: "decoder \<Rightarrow> network \<Rightarrow> DuckChat \<Rightarrow> (py_error + string) \<times> DuckChat" where
  "get_answer dec net st = get_answer_from dec net 0 st"

section \<open>The handshake: \<^verbatim>\<open>get_vqd\<close>\<close>

text \<open>
  On status 429 the body is decoded and \<^verbatim>\<open>.get("type", "")\<close> is taken of it; when either
  step raises (the body is not JSON, or it is not a dict), the \<^verbatim>\<open>except Exception\<close> branch
  raises \<^verbatim>\<open>DuckChatException(res.decode())\<close>, otherwise the \<^verbatim>\<open>else\<close> branch raises
  \<^verbatim>\<open>RatelimitException(err_message)\<close>.
\<close>

definition get_vqd :: "decoder \<Rightarrow> network \<Rightarrow> DuckChat \<Rightarrow> (py_error + unit) \<times> DuckChat" where
  "get_vqd dec net st =
     (let (response, st1) = send net Handshake st
      in if status response = 429 then
           (case dec (body response) of
              Some (PDict kvs) \<Rightarrow> (Inl (RatelimitException (Given (dict_get kvs ''type'' (PStr [])))), st1)
            | _ \<Rightarrow> (Inl (raise_decoded DuckChatException [] (body response)), st1))
         else
           (case vqd_header response of
              Some token \<Rightarrow> (Inr (), st1\<lparr>vqd := vqd st1 @ [token]\<rparr>)
            | None \<Rightarrow> (Inl (DuckChatException (Text ''No x-vqd-4'')), st1)))"

section \<open>The streamed turn: \<^verbatim>\<open>stream_answer\<close>\<close>

text \<open>\<^verbatim>\<open>async for line in response.content\<close>: the body cut after each newline, the newline
  kept; \<open>cur\<close> is the line being read.\<close>

fun lines_from :: "bytes \<Rightarrow> bytes \<Rightarrow> bytes list" where
  "lines_from cur [] = (if cur = [] then [] else [cur])"
| "lines_from cur (c # cs) =
     (if c = CHR 0x0A then (cur @ [c]) # lines_from [] cs else lines_from (cur @ [c]) cs)"

text \<open>\<^verbatim>\<open>needle in s\<close> for two strings.\<close>

fun contains :: "string \<Rightarrow> string \<Rightarrow> bool" where
  "contains [] needle = (needle = [])"
| "contains (c # cs) needle = (startswith (c # cs) needle \<or> contains cs needle)"

text \<open>
  The inner \<^verbatim>\<open>try\<close> on one chunk:
  \<^verbatim>\<open>data = decode(chunk); if "message" in data and data["message"]: yield data["message"]\<close>.
  The result is the value yielded, if any; \<open>None\<close> stands for an exception, which the
  \<^verbatim>\<open>except Exception\<close> turns into \<^verbatim>\<open>DuckChatException("Couldn't parse body=...")\<close>. The
  membership test raises \<^verbatim>\<open>TypeError\<close> on a value that is no container, and the subscript
  \<^verbatim>\<open>data["message"]\<close> raises it on a string or a list. No test looks at \<^verbatim>\<open>action\<close>.
\<close>

fun chunk_yield :: "pyval \<Rightarrow> pyval option option" where
  "chunk_yield (PDict kvs) =
     (case map_of kvs ''message'' of
        None \<Rightarrow> Some None
      | Some v \<Rightarrow> if truthy v then Some (Some v) else Some None)"
| "chunk_yield (PStr s) = (if contains s ''message'' then None else Some None)"
| "chunk_yield (PList xs) = (if PStr ''message'' \<in> set xs then None else Some None)"
| "chunk_yield _ = None"

text \<open>
  The loop over the lines, with the values yielded so far. An exception of the inner
  \<^verbatim>\<open>try\<close> (or of \<^verbatim>\<open>chunk.decode()\<close> in its handler) is caught by the outer
  \<^verbatim>\<open>except Exception as e\<close> and raised again as
  \<^verbatim>\<open>DuckChatException(f"Error while streaming data: {str(e)}")\<close>.
\<close>

fun stream_lines :: "decoder \<Rightarrow> bytes list \<Rightarrow> pyval list \<Rightarrow> pyval list \<times> py_error option" where
  "stream_lines dec [] yielded = (yielded, None)"
| "stream_lines dec (line # rest) yielded =
     (if startswith line ''data: '' then
        (let chunk = drop 6 line
         in if startswith chunk ''[DONE]'' then (yielded, None)
            else
              (case (case dec chunk of None \<Rightarrow> None | Some data \<Rightarrow> chunk_yield data) of
                 None \<Rightarrow>
                   (yielded,
                    Some (DuckChatException (ErrorWhileStreaming
                      (raise_decoded DuckChatException ''Couldn't parse body='' chunk))))
               | Some None \<Rightarrow> stream_lines dec rest yielded
               | Some (Some v) \<Rightarrow> stream_lines dec rest (yielded @ [v])))
      else stream_lines dec rest yielded)"

text \<open>
  \<^verbatim>\<open>stream_answer\<close>, run to its end by a consumer that takes every value: the values it
  yields, the exception it ends with (if any), and the session. The token is appended
  after the \<^verbatim>\<open>async with\<close> block, when no exception has left it. \<^verbatim>\<open>response.text()\<close> is
  taken as the UTF-8 decoding of the body.
\<close>

definition stream_answer :: "decoder \<Rightarrow> network \<Rightarrow> DuckChat \<Rightarrow> (pyval list \<times> py_error option) \<times> DuckChat" where
  "stream_answer dec net st =
     (if vqd st = [] then (([], Some IndexError), st)
      else
        let (response, st1) = send net (Turn (last (vqd st)) (history st)) st
        in if status response = 429
           then (([], Some (raise_decoded RatelimitException [] (body response))), st1)
           else
             (case stream_lines dec (lines_from [] (body response)) [] of
                (yielded, Some e) \<Rightarrow> ((yielded, Some e), st1)
              | (yielded, None) \<Rightarrow>
                  ((yielded, None), st1\<lparr>vqd := vqd st1 @ [header_or_empty response]\<rparr>)))"

section \<open>The operations: ask and re-ask\<close>

definition ask_question :: "decoder \<Rightarrow> network \<Rightarrow> string \<Rightarrow> DuckChat \<Rightarrow> (py_error + string) \<times> DuckChat" where
  "ask_question dec net query st =
     (case (if vqd st = [] then get_vqd dec net st else (Inr (), st)) of
        (Inl e, st1) \<Rightarrow> (Inl e, st1)
      | (Inr _, st1) \<Rightarrow>
          (case get_answer dec net (st1\<lparr>history := add_input (history st1) query\<rparr>) of
             (Inl e, st2) \<Rightarrow> (Inl e, st2)
           | (Inr message, st2) \<Rightarrow>
               (Inr message, st2\<lparr>history := add_answer (history st2) message\<rparr>)))"

text \<open>
  The rewinding that both re-ask operations start with, from
  \<^verbatim>\<open>if num >= len(self.vqd)\<close> to the last assignment of \<^verbatim>\<open>self.history.messages\<close>. The
  extra result is \<open>None\<close> when the history has no message (where the two operations differ),
  an exception of the handshake, or \<open>()\<close> when the turn can be sent.
\<close>

definition rewind :: "decoder \<Rightarrow> network \<Rightarrow> int \<Rightarrow> DuckChat \<Rightarrow> (py_error + unit) option \<times> DuckChat" where
  "rewind dec net num st =
     (let num1 = (if int (length (vqd st)) \<le> num then int (length (vqd st)) - 1 else num);
          st1 = st\<lparr>vqd := slice_to (vqd st) num1\<rparr>
      in case messages (history st1) of
           [] \<Rightarrow> (None, st1)
         | first # _ \<Rightarrow>
             if vqd st1 = [] then
               (case get_vqd dec net st1 of
                  (Inl e, st2) \<Rightarrow> (Some (Inl e), st2)
                | (Inr _, st2) \<Rightarrow>
                    (Some (Inr ()), st2\<lparr>history := (history st2)\<lparr>messages := [first]\<rparr>\<rparr>))
             else
               (let num2 = min num1 (int (length (vqd st1)))
                in (Some (Inr ()),
                    st1\<lparr>history := (history st1)
                          \<lparr>messages := slice_to (messages (history st1)) (num2 * 2 - 1)\<rparr>\<rparr>)))"

definition reask_question :: "decoder \<Rightarrow> network \<Rightarrow> int \<Rightarrow> DuckChat \<Rightarrow> (py_error + string) \<times> DuckChat" where
  "reask_question dec net num st =
     (case rewind dec net num st of
        (None, st1) \<Rightarrow> (Inr [], st1)
      | (Some (Inl e), st1) \<Rightarrow> (Inl e, st1)
      | (Some (Inr _), st1) \<Rightarrow>
          (case get_answer dec net st1 of
             (Inl e, st2) \<Rightarrow> (Inl e, st2)
           | (Inr message, st2) \<Rightarrow>
               (Inr message, st2\<lparr>history := add_answer (history st2) message\<rparr>)))"

text \<open>
  The streaming operations, run to their end: the values yielded to the caller, the
  exception (if any), the session. After the stream, \<^verbatim>\<open>"".join(message_list)\<close> is appended
  to the history as the answer.
\<close>

definition finish_stream :: "decoder \<Rightarrow> network \<Rightarrow> DuckChat \<Rightarrow> (pyval list \<times> py_error option) \<times> DuckChat" where
  "finish_stream dec net st =
     (case stream_answer dec net st of
        ((yielded, Some e), st1) \<Rightarrow> ((yielded, Some e), st1)
      | ((yielded, None), st1) \<Rightarrow>
          (case join_str yielded of
             Inl e \<Rightarrow> ((yielded, Some e), st1)
           | Inr text \<Rightarrow> ((yielded, None), st1\<lparr>history := add_answer (history st1) text\<rparr>)))"

definition ask_question_stream :: "decoder \<Rightarrow> network \<Rightarrow> string \<Rightarrow> DuckChat \<Rightarrow> (pyval list \<times> py_error option) \<times> DuckChat" where
  "ask_question_stream dec net query st =
     (case (if vqd st = [] then get_vqd dec net st else (Inr (), st)) of
        (Inl e, st1) \<Rightarrow> (([], Some e), st1)
      | (Inr _, st1) \<Rightarrow> finish_stream dec net (st1\<lparr>history := add_input (history st1) query\<rparr>))"

definition reask_question_stream :: "decoder \<Rightarrow> network \<Rightarrow> int \<Rightarrow> DuckChat \<Rightarrow> (pyval list \<times> py_error option) \<times> DuckChat" where
  "reask_question_stream dec net num st =
     (case rewind dec net num st of
        (None, st1) \<Rightarrow> (([], Some (GeneratorExit ''There is no history messages'')), st1)
      | (Some (Inl e), st1) \<Rightarrow> (([], Some e), st1)
      | (Some (Inr _), st1) \<Rightarrow> finish_stream dec net st1)"

section \<open>A JSON decoder\<close>

text \<open>
  The decoder is a parameter of every operation above, and the general theorems below hold
  for any decoder. For evaluating the operations on concrete bodies, \<open>json_decode\<close> reads the
  JSON grammar of RFC 8259: objects, arrays, strings with the two-character escapes,
  integers and the three literals, with white space between the tokens. It returns \<open>None\<close>
  on every other text; it is used only on texts of this fragment (no \<^verbatim>\<open>\u\<close> escape, no
  fraction, no exponent), where it returns what \<^verbatim>\<open>msgspec.json.Decoder().decode\<close> returns.
  The recursion is bounded by a fuel that the length of the text covers.
\<close>

definition is_ws :: "char \<Rightarrow> bool" where
  "is_ws c = (c = CHR '' '' \<or> c = CHR 0x0A \<or> c = CHR 0x0D \<or> c = CHR 0x09)"

fun skip_ws :: "bytes \<Rightarrow> bytes" where
  "skip_ws [] = []"
| "skip_ws (c # cs) = (if is_ws c then skip_ws cs else c # cs)"

definition is_digit :: "char \<Rightarrow> bool" where
  "is_digit c = (48 \<le> (of_char c :: nat) \<and> (of_char c :: nat) \<le> 57)"

definition unescape :: "char \<Rightarrow> char option" where
  "unescape c =
     (if c = CHR 0x22 \<or> c = CHR 0x5C \<or> c = CHR ''/'' then Some c
      else if c = CHR ''b'' then Some (CHR 0x08)
      else if c = CHR ''f'' then Some (CHR 0x0C)
      else if c = CHR ''n'' then Some (CHR 0x0A)
      else if c = CHR ''r'' then Some (CHR 0x0D)
      else if c = CHR ''t'' then Some (CHR 0x09)
      else None)"

text \<open>A string, after its opening quote: the text and what follows the closing quote.\<close>

fun parse_string :: "string \<Rightarrow> bytes \<Rightarrow> (string \<times> bytes) option" where
  "parse_string acc [] = None"
| "parse_string acc [c] = (if c = CHR 0x22 then Some (acc, []) else None)"
| "parse_string acc (c # d # cs) =
     (if c = CHR 0x22 then Some (acc, d # cs)
      else if c = CHR 0x5C then
        (case unescape d of None \<Rightarrow> None | Some e \<Rightarrow> parse_string (acc @ [e]) cs)
      else if (of_char c :: nat) < 32 then None
      else parse_string (acc @ [c]) (d # cs))"

fun read_digits :: "nat \<Rightarrow> bytes \<Rightarrow> nat \<times> bytes" where
  "read_digits n [] = (n, [])"
| "read_digits n (c # cs) =
     (if is_digit c then read_digits (10 * n + (of_char c - 48)) cs else (n, c # cs))"

definition parse_unsigned :: "bytes \<Rightarrow> (nat \<times> bytes) option" where
  "parse_unsigned s =
     (case s of
        [] \<Rightarrow> None
      | c # cs \<Rightarrow>
          if c = CHR ''0'' then Some (0, cs)
          else if is_digit c then Some (read_digits 0 s)
          else None)"

definition parse_number :: "bytes \<Rightarrow> (pyval \<times> bytes) option" where
  "parse_number s =
     (if startswith s ''-''
      then (case parse_unsigned (drop 1 s) of
              None \<Rightarrow> None | Some (n, r) \<Rightarrow> Some (PInt (- int n), r))
      else (case parse_unsigned s of
              None \<Rightarrow> None | Some (n, r) \<Rightarrow> Some (PInt (int n), r)))"

text \<open>\<^verbatim>\<open>d[k] = v\<close> on the items of a dict: a key that occurs again keeps its place and takes
  the new value.\<close>

fun dict_set :: "(string \<times> pyval) list \<Rightarrow> string \<Rightarrow> pyval \<Rightarrow> (string \<times> pyval) list" where
  "dict_set [] k v = [(k, v)]"
| "dict_set (kv # kvs) k v = (if fst kv = k then (k, v) # kvs else kv # dict_set kvs k v)"

fun parse_value :: "nat \<Rightarrow> bytes \<Rightarrow> (pyval \<times> bytes) option"
and parse_elems :: "nat \<Rightarrow> pyval list \<Rightarrow> bytes \<Rightarrow> (pyval \<times> bytes) option"
and parse_members :: "nat \<Rightarrow> (string \<times> pyval) list \<Rightarrow> bytes \<Rightarrow> (pyval \<times> bytes) option"
where
  "parse_value 0 s = None"
| "parse_value (Suc n) s =
     (case skip_ws s of
        [] \<Rightarrow> None
      | c # cs \<Rightarrow>
          if c = CHR ''['' then
            (case skip_ws cs of
               [] \<Rightarrow> None
             | d # ds \<Rightarrow> if d = CHR '']'' then Some (PList [], ds) else parse_elems n [] cs)
          else if c = CHR ''{'' then
            (case skip_ws cs of
               [] \<Rightarrow> None
             | d # ds \<Rightarrow> if d = CHR ''}'' then Some (PDict [], ds) else parse_members n [] cs)
          else if c = CHR 0x22 then
            (case parse_string [] cs of None \<Rightarrow> None | Some (t, r) \<Rightarrow> Some (PStr t, r))
          else if startswith (c # cs) ''true'' then Some (PBool True, drop 4 (c # cs))
          else if startswith (c # cs) ''false'' then Some (PBool False, drop 5 (c # cs))
          else if startswith (c # cs) ''null'' then Some (PNone, drop 4 (c # cs))
          else parse_number (c # cs))"
| "parse_elems 0 acc s = None"
| "parse_elems (Suc n) acc s =
     (case parse_value n s of
        None \<Rightarrow> None
      | Some (v, r) \<Rightarrow>
          (case skip_ws r of
             [] \<Rightarrow> None
           | c # cs \<Rightarrow>
               if c = CHR '','' then parse_elems n (acc @ [v]) cs
               else if c = CHR '']'' then Some (PList (acc @ [v]), cs)
               else None))"
| "parse_members 0 acc s = None"
| "parse_members (Suc n) acc s =
     (case skip_ws s of
        [] \<Rightarrow> None
      | q # r0 \<Rightarrow>
          if q = CHR 0x22 then
            (case parse_string [] r0 of
               None \<Rightarrow> None
             | Some (k, r1) \<Rightarrow>
                 (case skip_ws r1 of
                    [] \<Rightarrow> None
                  | c # r2 \<Rightarrow>
                      if c = CHR '':'' then
                        (case parse_value n r2 of
                           None \<Rightarrow> None
                         | Some (v, r3) \<Rightarrow>
                             (case skip_ws r3 of
                                [] \<Rightarrow> None
                              | d # r4 \<Rightarrow>
                                  if d = CHR '','' then parse_members n (dict_set acc k v) r4
                                  else if d = CHR ''}'' then Some (PDict (dict_set acc k v), r4)
                                  else None))
                      else None))
          else None)"

definition json_decode :: decoder where
  "json_decode s =
     (if utf8_codes (map of_char s) then
        (case parse_value (2 * length s + 2) s of
           None \<Rightarrow> None
         | Some (v, r) \<Rightarrow> if skip_ws r = [] then Some v else None)
      else None)"

section \<open>Notions the properties are stated with\<close>

text \<open>The roles of a list of messages alternate, starting with \<open>r\<close>.\<close>

fun other :: "role \<Rightarrow> role" where
  "other User = Assistant"
| "other Assistant = User"

fun alternates :: "role \<Rightarrow> Message list \<Rightarrow> bool" where
  "alternates r [] = True"
| "alternates r (m # ms) = (role m = r \<and> alternates (other r) ms)"

text \<open>A history of whole turns: it alternates from a user message and does not end on
  one, which is what \<open>add_input\<close> requires of it.\<close>

definition whole_turns :: "Message list \<Rightarrow> bool" where
  "whole_turns ms = (alternates User ms \<and> even (length ms))"

text \<open>A response that \<^verbatim>\<open>get_answer\<close> takes for a soft block: its status is not 429 and the
  loop over its records ends in \<^verbatim>\<open>has_error = True\<close>.\<close>

definition soft_block :: "decoder \<Rightarrow> response \<Rightarrow> bool" where
  "soft_block dec r =
     (status r \<noteq> 429 \<and>
      (case dec (frame (body r)) of
         None \<Rightarrow> False
       | Some data \<Rightarrow>
           (case iterate data of Inl e \<Rightarrow> False | Inr xs \<Rightarrow> scan_records xs [] = Inr Blocked)))"


text \<open>The session that \<^verbatim>\<open>__init__\<close> builds (\<^verbatim>\<open>max_retries\<close> and \<^verbatim>\<open>delay\<close> default to 3 and
  10), a service that answers every request alike, and a service that answers from a list
  and then with a last response.\<close>

definition init :: "string \<Rightarrow> int \<Rightarrow> int \<Rightarrow> DuckChat" where
  "init m retries d =
     \<lparr>vqd = [], history = \<lparr>model = m, messages = []\<rparr>, max_retries = retries, delay = d,
      sent = []\<rparr>"

definition always :: "response \<Rightarrow> network" where
  "always r n = r"

definition replies :: "response list \<Rightarrow> response \<Rightarrow> network" where
  "replies rs r n = (if n < length rs then rs ! n else r)"

definition ok :: "bytes \<Rightarrow> string option \<Rightarrow> response" where
  "ok b h = \<lparr>status = 200, body = b, vqd_header = h\<rparr>"

text \<open>Bodies of the service: an answer in one record followed by the terminator and the
  limit marker, a soft block, and an answer record followed by an error record that also carries a
  message.\<close>

definition hi_body :: bytes where
  "hi_body =
     ''data: {\"message\":\"Hi\"}\<newline>\<newline>data: [DONE]\<newline>\<newline>data: [LIMIT_CONVERSATION]\<newline>''"

definition bn_limit_body :: bytes where
  "bn_limit_body =
     ''data: {\"action\":\"error\",\"status\":429,\"type\":\"ERR_BN_LIMIT\"}\<newline>\<newline>data: [DONE]\<newline>''"

definition conversation_limit_body :: bytes where
  "conversation_limit_body =
     ''data: {\"message\":\"Hi\"}\<newline>\<newline>data: {\"action\":\"error\",\"status\":429,\"type\":\"ERR_CONVERSATION_LIMIT\",\"message\":\"limit\"}\<newline>\<newline>data: [DONE]\<newline>''"

text \<open>A session after two turns: the token of the handshake and one token for each turn, two
  questions and their answers.\<close>

definition two_turns :: DuckChat where
  "two_turns =
     \<lparr>vqd = [''t0'', ''t1'', ''t2''],
      history = \<lparr>model = ''m'',
                 messages = [\<lparr>role = User, content = ''q1''\<rparr>, \<lparr>role = Assistant, content = ''a1''\<rparr>,
                             \<lparr>role = User, content = ''q2''\<rparr>, \<lparr>role = Assistant, content = ''a2''\<rparr>]\<rparr>,
      max_retries = 3, delay = 10, sent = []\<rparr>"





section \<open>Lemmas on the operations\<close>

text \<open>What one attempt, the retry loop and the handshake leave unchanged, and what they
  append.\<close>

lemma attempt_once_frame:
  assumes "attempt_once dec net st = (out, st1)"
  shows "history st1 = history st" and "max_retries st1 = max_retries st"
    and "delay st1 = delay st"
    and "sent st1 = (if vqd st = [] then sent st else sent st @ [Turn (last (vqd st)) (history st)])"
  using assms
  by (auto simp: attempt_once_def send_def Let_def
           split: if_splits option.splits sum.splits scan.splits)

lemma attempt_once_vqd:
  assumes "attempt_once dec net st = (out, st1)"
  shows "out = Retry \<Longrightarrow> vqd st1 = vqd st"
    and "out = Return text \<Longrightarrow> vqd st1 = vqd st @ [header_or_empty (net (length (sent st)))]"
    and "out = Return text \<Longrightarrow> vqd st \<noteq> []"
    and "out = Retry \<Longrightarrow> vqd st \<noteq> []"
  using assms
  by (auto simp: attempt_once_def send_def Let_def
           split: if_splits option.splits sum.splits scan.splits)

lemma get_answer_from_success:
  "get_answer_from dec net attempt st = (Inr text, st') \<Longrightarrow>
     history st' = history st \<and> max_retries st' = max_retries st \<and> vqd st \<noteq> [] \<and>
     (\<exists>k. sent st' = sent st @ replicate (Suc k) (Turn (last (vqd st)) (history st))) \<and>
     vqd st' = vqd st @ [header_or_empty (net (length (sent st') - 1))]"
proof (induction dec net attempt st rule: get_answer_from.induct)
  case (1 dec net attempt st)
  from "1.prems" have lt: "attempt < max_retries st"
    by (subst (asm) get_answer_from.simps) (auto split: if_splits)
  obtain out st1 where a: "attempt_once dec net st = (out, st1)"
    by (cases "attempt_once dec net st")
  note fr = attempt_once_frame[OF a] and vq = attempt_once_vqd[OF a]
  show ?case
  proof (cases out)
    case (Return t)
    with "1.prems" lt a have "st' = st1" "t = text"
      by (subst (asm) get_answer_from.simps, simp)+
    with Return fr vq show ?thesis
      by (auto intro: exI[of _ 0])
  next
    case (Raise e)
    with "1.prems" lt a show ?thesis
      by (subst (asm) get_answer_from.simps) simp
  next
    case Retry
    with "1.prems" lt a have rec: "get_answer_from dec net (attempt + 1) st1 = (Inr text, st')"
      by (subst (asm) get_answer_from.simps) simp
    from Retry vq have v: "vqd st1 = vqd st" "vqd st \<noteq> []" by auto
    from "1.IH"[OF lt a[symmetric] _ rec] Retry
    have ih: "history st' = history st1" "max_retries st' = max_retries st1"
      "\<exists>k. sent st' = sent st1 @ replicate (Suc k) (Turn (last (vqd st1)) (history st1))"
      "vqd st' = vqd st1 @ [header_or_empty (net (length (sent st') - 1))]"
      by auto
    then obtain k where k: "sent st' = sent st1 @ replicate (Suc k) (Turn (last (vqd st1)) (history st1))"
      by blast
    have "sent st' = sent st @ replicate (Suc (Suc k)) (Turn (last (vqd st)) (history st))"
      using k fr v by simp
    with ih fr v show ?thesis by metis
  qed
qed

lemma get_vqd_frame:
  assumes "get_vqd dec net st = (res, st1)"
  shows "history st1 = history st" and "max_retries st1 = max_retries st"
    and "sent st1 = sent st @ [Handshake]"
    and "vqd st1 = (case res of Inl e \<Rightarrow> vqd st
                    | Inr u \<Rightarrow> vqd st @ [the (vqd_header (net (length (sent st))))])"
    and "res = Inr u \<Longrightarrow> vqd_header (net (length (sent st))) \<noteq> None \<and> status (net (length (sent st))) \<noteq> 429"
  using assms
  by (auto simp: get_vqd_def send_def Let_def
           split: if_splits option.splits pyval.splits)

lemma attempt_once_blocked:
  assumes "vqd st \<noteq> []" and "soft_block dec (net (length (sent st)))"
  shows "attempt_once dec net st =
           (Retry, st\<lparr>sent := sent st @ [Turn (last (vqd st)) (history st)]\<rparr>)"
  using assms
  by (auto simp: attempt_once_def soft_block_def send_def Let_def
           split: option.splits sum.splits scan.splits)

lemma get_answer_from_blocked:
  "vqd st \<noteq> [] \<Longrightarrow>
   \<forall>i < nat (max_retries st - attempt). soft_block dec (net (length (sent st) + i)) \<Longrightarrow>
   get_answer_from dec net attempt st =
     (Inl (DuckChatException
        (Text (''ERR_BN_LIMIT after '' @ str_int (max_retries st) @ '' attempts''))),
      st\<lparr>sent := sent st @
             replicate (nat (max_retries st - attempt)) (Turn (last (vqd st)) (history st))\<rparr>)"
proof (induction dec net attempt st rule: get_answer_from.induct)
  case (1 dec net attempt st)
  show ?case
  proof (cases "attempt < max_retries st")
    case False
    then show ?thesis
      by (subst get_answer_from.simps) simp
  next
    case True
    let ?st1 = "st\<lparr>sent := sent st @ [Turn (last (vqd st)) (history st)]\<rparr>"
    from True have pos: "0 < nat (max_retries st - attempt)" by simp
    with "1.prems"(2) have "soft_block dec (net (length (sent st) + 0))" by blast
    then have a: "attempt_once dec net st = (Retry, ?st1)"
      using attempt_once_blocked[OF "1.prems"(1)] by simp
    have n: "nat (max_retries st - attempt) = Suc (nat (max_retries st - (attempt + 1)))"
      using True by simp
    have b: "\<forall>i < nat (max_retries ?st1 - (attempt + 1)).
               soft_block dec (net (length (sent ?st1) + i))"
    proof (intro allI impI)
      fix i assume "i < nat (max_retries ?st1 - (attempt + 1))"
      then have "Suc i < nat (max_retries st - attempt)" using n by simp
      with "1.prems"(2) have "soft_block dec (net (length (sent st) + Suc i))" by blast
      then show "soft_block dec (net (length (sent ?st1) + i))" by simp
    qed
    have v: "vqd ?st1 \<noteq> []" using "1.prems"(1) by simp
    have rec: "get_answer_from dec net (attempt + 1) ?st1 =
      (Inl (DuckChatException
        (Text (''ERR_BN_LIMIT after '' @ str_int (max_retries ?st1) @ '' attempts''))),
      ?st1\<lparr>sent := sent ?st1 @
             replicate (nat (max_retries ?st1 - (attempt + 1))) (Turn (last (vqd ?st1)) (history ?st1))\<rparr>)"
      using "1.IH"[OF True a[symmetric] refl v b] .
    have "get_answer_from dec net attempt st = get_answer_from dec net (attempt + 1) ?st1"
      using True a by (subst get_answer_from.simps) simp
    also note rec
    finally show ?thesis
      using n by (simp add: replicate_append_same)
  qed
qed

lemma get_answer_from_sends:
  "vqd st \<noteq> [] \<Longrightarrow>
   \<exists>k. sent (snd (get_answer_from dec net attempt st)) =
          sent st @ replicate k (Turn (last (vqd st)) (history st))
       \<and> (attempt < max_retries st \<longrightarrow> 0 < k)"
proof (induction dec net attempt st rule: get_answer_from.induct)
  case (1 dec net attempt st)
  show ?case
  proof (cases "attempt < max_retries st")
    case False
    then show ?thesis
      by (subst get_answer_from.simps) simp
  next
    case True
    obtain out st1 where a: "attempt_once dec net st = (out, st1)"
      by (cases "attempt_once dec net st")
    note fr = attempt_once_frame[OF a] and vq = attempt_once_vqd[OF a]
    have s1: "sent st1 = sent st @ replicate 1 (Turn (last (vqd st)) (history st))"
      using fr(4) "1.prems" by simp
    show ?thesis
    proof (cases out)
      case (Return t)
      with True a s1 show ?thesis
        by (subst get_answer_from.simps) (auto intro!: exI[of _ 1])
    next
      case (Raise e)
      with True a s1 show ?thesis
        by (subst get_answer_from.simps) (auto intro!: exI[of _ 1])
    next
      case Retry
      with vq have v: "vqd st1 = vqd st" by simp
      with "1.prems" have v1: "vqd st1 \<noteq> []" by simp
      from "1.IH"[OF True a[symmetric] Retry v1] obtain k where
        k: "sent (snd (get_answer_from dec net (attempt + 1) st1)) =
              sent st1 @ replicate k (Turn (last (vqd st1)) (history st1))"
        by blast
      have "get_answer_from dec net attempt st = get_answer_from dec net (attempt + 1) st1"
        using True a Retry by (subst get_answer_from.simps) simp
      with k fr v have "sent (snd (get_answer_from dec net attempt st)) =
          sent st @ replicate (Suc k) (Turn (last (vqd st)) (history st))"
        using "1.prems" by simp
      then show ?thesis by blast
    qed
  qed
qed

lemma get_answer_from_success_attempts:
  "get_answer_from dec net attempt st = (Inr text, st') \<Longrightarrow> attempt < max_retries st"
  by (subst (asm) get_answer_from.simps) (auto split: if_splits)

lemma alternates_append:
  "alternates r (xs @ ys) =
     (alternates r xs \<and> alternates (if even (length xs) then r else other r) ys)"
proof (induction xs arbitrary: r)
  case Nil
  show ?case by simp
next
  case (Cons x xs)
  show ?case by (cases r) (auto simp: Cons.IH)
qed

lemma whole_turns_turn:
  "whole_turns ms \<Longrightarrow>
   whole_turns (ms @ [\<lparr>role = User, content = q\<rparr>, \<lparr>role = Assistant, content = a\<rparr>])"
  by (simp add: whole_turns_def alternates_append)







text \<open>Evaluations on the concrete bodies.\<close>

lemma ok_sel: "status (ok b h) = 200" "body (ok b h) = b" "vqd_header (ok b h) = h"
  by (simp_all add: ok_def)

lemma str_int_3: "str_int 3 = ''3''"
  by code_simp

lemma frame_hi_body: "frame hi_body = ''[{\"message\":\"Hi\"}]''"
  unfolding hi_body_def by code_simp

lemma decode_hi: "json_decode ''[{\"message\":\"Hi\"}]'' = Some (PList [PDict [(''message'', PStr ''Hi'')]])"
  by code_simp

lemma decode_bn_limit:
  "json_decode (frame bn_limit_body) =
     Some (PList [PDict [(''action'', PStr ''error''), (''status'', PInt 429),
                         (''type'', PStr ''ERR_BN_LIMIT'')]])"
  unfolding bn_limit_body_def by code_simp





lemma soft_block_bn_limit: "soft_block json_decode (ok bn_limit_body h)"
  by (simp add: soft_block_def ok_sel decode_bn_limit dict_get_def err_message_def)

lemma first_turn:
  "fst (ask_question json_decode (replies [ok [] (Some ''t0'')] (ok hi_body (Some ''t1''))) ''hello''
          (init ''m'' 3 10)) = Inr ''Hi''"
  unfolding hi_body_def by code_simp

lemma later_turn:
  "fst (ask_question json_decode (always (ok hi_body (Some ''t1''))) ''hello''
          ((init ''m'' 3 10)\<lparr>vqd := [''t0'']\<rparr>)) = Inr ''Hi''"
  unfolding hi_body_def by code_simp

section \<open>A successful buffered turn\<close>

text \<open>
  C1 (as amended). When \<open>ask_question\<close> returns normally, the history has grown by exactly
  the user message of the query followed by the assistant message of the answer. The token
  ledger has grown by exactly one token when it was not empty at the call, and holds exactly
  two tokens (the one of the handshake, then the one of the turn) when it was empty. A
  history of whole turns (alternating from a user message, not ending on one) stays one.
\<close>

theorem ask_question_success:
  assumes "ask_question dec net query st = (Inr message, st')"
  shows "messages (history st') =
           messages (history st) @
             [\<lparr>role = User, content = query\<rparr>, \<lparr>role = Assistant, content = message\<rparr>]
         \<and> (vqd st \<noteq> [] \<longrightarrow> (\<exists>t. vqd st' = vqd st @ [t]))
         \<and> (vqd st = [] \<longrightarrow> (\<exists>t0 t. vqd st' = [t0, t]))
         \<and> (whole_turns (messages (history st)) \<longrightarrow> whole_turns (messages (history st')))"
proof -
  obtain r0 st1 where h: "(if vqd st = [] then get_vqd dec net st else (Inr (), st)) = (r0, st1)"
    by (cases "if vqd st = [] then get_vqd dec net st else (Inr (), st)")
  from assms h obtain u where r0: "r0 = Inr u"
    by (cases r0) (auto simp: ask_question_def)
  let ?st1 = "st1\<lparr>history := add_input (history st1) query\<rparr>"
  obtain st2 where g: "get_answer_from dec net 0 ?st1 = (Inr message, st2)"
    and st': "st' = st2\<lparr>history := add_answer (history st2) message\<rparr>"
    using assms h r0
    by (auto simp: ask_question_def get_answer_def split: prod.splits sum.splits)
  note ga = get_answer_from_success[OF g]
  have hist1: "history st1 = history st"
    using h get_vqd_frame(1)[of dec net st r0 st1] by (auto split: if_splits)
  have msgs: "messages (history st') =
           messages (history st) @
             [\<lparr>role = User, content = query\<rparr>, \<lparr>role = Assistant, content = message\<rparr>]"
    using ga st' hist1 by (simp add: add_input_def add_answer_def)
  have v1: "vqd st \<noteq> [] \<Longrightarrow> vqd st1 = vqd st"
    using h by simp
  have v0: "vqd st = [] \<Longrightarrow> \<exists>t0. vqd st1 = [t0]"
    using h r0 get_vqd_frame(4)[of dec net st r0 st1] by simp
  have vq: "\<exists>t. vqd st' = vqd st1 @ [t]"
    using ga st' by simp
  show ?thesis
    using msgs v1 v0 vq whole_turns_turn by auto
qed

theorem ask_question_success_witness:
  "(\<exists>a b. vqd (snd (ask_question json_decode
        (replies [ok [] (Some ''t0'')] (ok hi_body (Some ''t1''))) ''hello'' (init ''m'' 3 10)))
      = [a, b])
   \<and> (\<exists>t. vqd (snd (ask_question json_decode (always (ok hi_body (Some ''t1''))) ''hello''
          ((init ''m'' 3 10)\<lparr>vqd := [''t0'']\<rparr>))) = [''t0''] @ [t])
   \<and> whole_turns (messages (history (snd (ask_question json_decode
        (replies [ok [] (Some ''t0'')] (ok hi_body (Some ''t1''))) ''hello'' (init ''m'' 3 10)))))"
proof -
  let ?A = "ask_question json_decode
        (replies [ok [] (Some ''t0'')] (ok hi_body (Some ''t1''))) ''hello'' (init ''m'' 3 10)"
  let ?B = "ask_question json_decode (always (ok hi_body (Some ''t1''))) ''hello''
          ((init ''m'' 3 10)\<lparr>vqd := [''t0'']\<rparr>)"
  have a: "?A = (Inr ''Hi'', snd ?A)"
    using first_turn by (metis prod.collapse)
  have b: "?B = (Inr ''Hi'', snd ?B)"
    using later_turn by (metis prod.collapse)
  show ?thesis
    using ask_question_success[OF a] ask_question_success[OF b]
    by (simp add: init_def whole_turns_def)
qed

text \<open>The first turn of a new session: the call succeeds and the ledger has not grown by
  one token, but by two.\<close>

theorem ask_question_success_counterexample:
  "fst (ask_question json_decode (replies [ok [] (Some ''t0'')] (ok hi_body (Some ''t1''))) ''hello''
          (init ''m'' 3 10)) = Inr ''Hi''
   \<and> length (vqd (snd (ask_question json_decode
          (replies [ok [] (Some ''t0'')] (ok hi_body (Some ''t1''))) ''hello'' (init ''m'' 3 10))))
     \<noteq> length (vqd (init ''m'' 3 10)) + 1"
  unfolding hi_body_def by code_simp

section \<open>Soft blocks on every attempt\<close>

text \<open>
  C2 (as amended). When the handshake (if the ledger is empty) succeeds with token \<open>token\<close>
  and each of the \<open>max_retries\<close> attempts is answered by a soft block, \<open>ask_question\<close> raises
  \<^verbatim>\<open>DuckChatException("ERR_BN_LIMIT after N attempts")\<close>; the ledger is what it was when the
  attempts began (the ledger of the call, or the handshake's token alone), and the history
  is the history of the call followed by the user message of the query.
\<close>

theorem ask_question_blocked:
  assumes hs: "vqd st = [] \<longrightarrow>
                 status (net (length (sent st))) \<noteq> 429 \<and>
                 vqd_header (net (length (sent st))) = Some token"
    and bl: "\<forall>i < nat (max_retries st).
               soft_block dec (net (length (sent st) + (if vqd st = [] then 1 else 0) + i))"
  shows "fst (ask_question dec net query st) =
           Inl (DuckChatException
             (Text (''ERR_BN_LIMIT after '' @ str_int (max_retries st) @ '' attempts'')))
         \<and> vqd (snd (ask_question dec net query st)) = (if vqd st = [] then [token] else vqd st)
         \<and> messages (history (snd (ask_question dec net query st))) =
             messages (history st) @ [\<lparr>role = User, content = query\<rparr>]"
proof -
  define st1 where
    "st1 = (if vqd st = [] then st\<lparr>sent := sent st @ [Handshake], vqd := [token]\<rparr> else st)"
  have h: "(if vqd st = [] then get_vqd dec net st else (Inr (), st)) = (Inr (), st1)"
    using hs by (auto simp: st1_def get_vqd_def send_def Let_def)
  let ?st2 = "st1\<lparr>history := add_input (history st1) query\<rparr>"
  have v: "vqd ?st2 \<noteq> []" by (simp add: st1_def)
  have b: "\<forall>i < nat (max_retries ?st2 - 0). soft_block dec (net (length (sent ?st2) + i))"
    using bl by (auto simp: st1_def add.assoc)
  note g = get_answer_from_blocked[OF v b]
  show ?thesis
    using h g by (simp add: ask_question_def get_answer_def st1_def add_input_def)
qed

theorem ask_question_blocked_witness:
  "fst (ask_question json_decode (replies [ok [] (Some ''t0'')] (ok bn_limit_body None)) ''hello''
          (init ''m'' 3 10))
     = Inl (DuckChatException (Text ''ERR_BN_LIMIT after 3 attempts''))
   \<and> vqd (snd (ask_question json_decode (replies [ok [] (Some ''t0'')] (ok bn_limit_body None))
          ''hello'' (init ''m'' 3 10))) = [''t0'']
   \<and> messages (history (snd (ask_question json_decode
          (replies [ok [] (Some ''t0'')] (ok bn_limit_body None)) ''hello'' (init ''m'' 3 10))))
     = [\<lparr>role = User, content = ''hello''\<rparr>]"
  using ask_question_blocked[where st = "init ''m'' 3 10" and dec = json_decode and token = "''t0''"
          and net = "replies [ok [] (Some ''t0'')] (ok bn_limit_body None)" and query = "''hello''"]
  by (simp add: init_def replies_def soft_block_bn_limit str_int_3 ok_sel)

text \<open>With one token held and a service that always answers with a soft block, the call
  fails after three attempts and the history is not what it was before the call.\<close>

theorem ask_question_blocked_counterexample:
  "fst (ask_question json_decode (always (ok bn_limit_body None)) ''hello''
          ((init ''m'' 3 10)\<lparr>vqd := [''t0'']\<rparr>))
     = Inl (DuckChatException (Text ''ERR_BN_LIMIT after 3 attempts''))
   \<and> history (snd (ask_question json_decode (always (ok bn_limit_body None)) ''hello''
          ((init ''m'' 3 10)\<lparr>vqd := [''t0'']\<rparr>)))
     \<noteq> history ((init ''m'' 3 10)\<lparr>vqd := [''t0'']\<rparr>)"
  unfolding bn_limit_body_def by code_simp

section \<open>The buffered framer on the example body\<close>

text \<open>
  C3. On the body
  \<^verbatim>\<open>data: {"message":"Hi"}\n\ndata: [DONE]\n\ndata: [LIMIT_CONVERSATION]\n\<close> with status 200,
  the framing of \<open>get_answer\<close> gives the text \<^verbatim>\<open>[{"message":"Hi"}]\<close>, which decodes to exactly
  one record, whose \<^verbatim>\<open>message\<close> is \<^verbatim>\<open>Hi\<close>, and \<open>get_answer\<close> returns \<^verbatim>\<open>Hi\<close> (the session
  holding a token and allowing at least one attempt).
\<close>

theorem buffered_framer_hi:
  assumes "vqd st \<noteq> []" and "0 < max_retries st"
    and "status (net (length (sent st))) = 200"
    and "body (net (length (sent st))) = hi_body"
  shows "frame hi_body = ''[{\"message\":\"Hi\"}]''
         \<and> json_decode (frame hi_body) = Some (PList [PDict [(''message'', PStr ''Hi'')]])
         \<and> fst (get_answer json_decode net st) = Inr ''Hi''"
proof -
  have d: "json_decode (frame hi_body) = Some (PList [PDict [(''message'', PStr ''Hi'')]])"
    by (simp only: frame_hi_body decode_hi)
  have s: "scan_records [PDict [(''message'', PStr ''Hi'')]] [] = Inr (Collected [PStr ''Hi''])"
    by (simp add: dict_get_def)
  have "fst (attempt_once json_decode net st) = Return ''Hi''"
    using assms d s by (simp add: attempt_once_def send_def Let_def)
  then have "fst (get_answer json_decode net st) = Inr ''Hi''"
    using assms(2)
    by (subst get_answer_def, subst get_answer_from.simps) (auto split: prod.splits outcome.splits)
  with d frame_hi_body show ?thesis by simp
qed

theorem buffered_framer_hi_witness:
  "fst (get_answer json_decode (always (ok hi_body (Some ''t1''))) ((init ''m'' 3 10)\<lparr>vqd := [''t0'']\<rparr>))
     = Inr ''Hi''"
  using buffered_framer_hi[of "(init ''m'' 3 10)\<lparr>vqd := [''t0'']\<rparr>" "always (ok hi_body (Some ''t1''))"]
  by (simp add: init_def always_def ok_sel)

section \<open>Classification of an error record\<close>




section \<open>Re-asking with a negative index\<close>

text \<open>
  C5 (the code at a failing input). After two turns the ledger holds three tokens.
  \<open>reask_question (-1)\<close> slices the ledger with \<^verbatim>\<open>self.vqd[:-1]\<close>: it keeps \<^verbatim>\<open>t0\<close> and \<^verbatim>\<open>t1\<close>, cuts the
  history with \<^verbatim>\<open>messages[:-3]\<close> and sends the turn with the old token \<^verbatim>\<open>t1\<close>, without a
  handshake. \<open>reask_question 0\<close> empties the ledger and sends a handshake first. The two
  calls do not rewind alike, in the buffered and in the streaming operation: the index is
  bounded from above only.
\<close>

theorem reask_negative_index:
  "fst (reask_question json_decode (always (ok hi_body (Some ''t3''))) (- 1) two_turns) = Inr ''Hi''
   \<and> sent (snd (reask_question json_decode (always (ok hi_body (Some ''t3''))) (- 1) two_turns))
       = [Turn ''t1'' \<lparr>model = ''m'', messages = [\<lparr>role = User, content = ''q1''\<rparr>]\<rparr>]
   \<and> vqd (snd (reask_question json_decode (always (ok hi_body (Some ''t3''))) (- 1) two_turns))
       = [''t0'', ''t1'', ''t3'']
   \<and> sent (snd (reask_question json_decode (always (ok hi_body (Some ''t3''))) 0 two_turns))
       = [Handshake, Turn ''t3'' \<lparr>model = ''m'', messages = [\<lparr>role = User, content = ''q1''\<rparr>]\<rparr>]
   \<and> vqd (snd (reask_question json_decode (always (ok hi_body (Some ''t3''))) 0 two_turns))
       = [''t3'', ''t3'']
   \<and> vqd (snd (reask_question_stream json_decode (always (ok hi_body (Some ''t3''))) (- 1) two_turns))
       = [''t0'', ''t1'', ''t3'']
   \<and> vqd (snd (reask_question_stream json_decode (always (ok hi_body (Some ''t3''))) 0 two_turns))
       = [''t3'', ''t3'']"
  unfolding hi_body_def by code_simp

section \<open>Re-asking from the first turn\<close>

lemma rewind_zero:
  assumes "messages (history st) = first # rest"
  shows "rewind dec net 0 st =
     (case get_vqd dec net (st\<lparr>vqd := []\<rparr>) of
        (Inl e, st2) \<Rightarrow> (Some (Inl e), st2)
      | (Inr u, st2) \<Rightarrow> (Some (Inr ()), st2\<lparr>history := (history st2)\<lparr>messages := [first]\<rparr>\<rparr>))"
proof -
  have "slice_to (vqd st) (if int (length (vqd st)) \<le> 0 then int (length (vqd st)) - 1 else 0) = []"
    by (simp add: slice_to_def)
  then show ?thesis
    using assms by (simp add: rewind_def Let_def)
qed

lemma reask_zero_sends:
  assumes "messages (history st) = first # rest"
  shows "\<exists>k. sent (snd (reask_question dec net 0 st)) =
           sent st @ Handshake #
             replicate k (Turn (the (vqd_header (net (length (sent st)))))
                               ((history st)\<lparr>messages := [first]\<rparr>))"
proof -
  let ?s0 = "st\<lparr>vqd := []\<rparr>"
  obtain r st2 where h: "get_vqd dec net ?s0 = (r, st2)"
    by (cases "get_vqd dec net ?s0")
  note fr = get_vqd_frame[OF h]
  show ?thesis
  proof (cases r)
    case (Inl e)
    with h fr(3) have "sent (snd (reask_question dec net 0 st)) = sent st @ [Handshake]"
      by (simp add: reask_question_def rewind_zero[OF assms])
    then show ?thesis by (intro exI[of _ 0]) simp
  next
    case (Inr u)
    let ?s3 = "st2\<lparr>history := (history st2)\<lparr>messages := [first]\<rparr>\<rparr>"
    have v: "vqd ?s3 = [the (vqd_header (net (length (sent st))))]"
      using fr(4) Inr by simp
    then have "vqd ?s3 \<noteq> []" by simp
    from get_answer_from_sends[OF this, of dec net 0] v fr(1,3) obtain k where
      k: "sent (snd (get_answer_from dec net 0 ?s3)) =
            sent st @ Handshake #
              replicate k (Turn (the (vqd_header (net (length (sent st)))))
                                ((history st)\<lparr>messages := [first]\<rparr>))"
      by auto
    have "sent (snd (reask_question dec net 0 st)) = sent (snd (get_answer_from dec net 0 ?s3))"
      using h Inr
      by (auto simp: reask_question_def rewind_zero[OF assms] get_answer_def
               split: prod.splits sum.splits)
    with k show ?thesis by auto
  qed
qed

lemma reask_zero_success:
  assumes "messages (history st) = first # rest"
    and "reask_question dec net 0 st = (Inr message, st')"
  shows "\<exists>token t k.
           status (net (length (sent st))) \<noteq> 429
         \<and> vqd_header (net (length (sent st))) = Some token
         \<and> sent st' = sent st @ Handshake #
              replicate (Suc k) (Turn token ((history st)\<lparr>messages := [first]\<rparr>))
         \<and> vqd st' = [token, t]
         \<and> messages (history st') = [first, \<lparr>role = Assistant, content = message\<rparr>]"
proof -
  let ?s0 = "st\<lparr>vqd := []\<rparr>"
  obtain r st2 where h: "get_vqd dec net ?s0 = (r, st2)"
    by (cases "get_vqd dec net ?s0")
  from assms h obtain u where r: "r = Inr u"
    by (cases r) (auto simp: reask_question_def rewind_zero)
  note fr = get_vqd_frame[OF h]
  from fr(5)[OF r] obtain token where
    tok: "vqd_header (net (length (sent st))) = Some token"
    and ns: "status (net (length (sent st))) \<noteq> 429"
    by auto
  let ?s3 = "st2\<lparr>history := (history st2)\<lparr>messages := [first]\<rparr>\<rparr>"
  obtain st4 where g: "get_answer_from dec net 0 ?s3 = (Inr message, st4)"
    and st': "st' = st4\<lparr>history := add_answer (history st4) message\<rparr>"
    using assms h r
    by (auto simp: reask_question_def rewind_zero get_answer_def split: prod.splits sum.splits)
  have v2: "vqd st2 = [token]"
    using fr(4) r tok by simp
  from get_answer_from_success[OF g] v2 fr(1,3) obtain k where
    "sent st4 = sent st @ Handshake # replicate (Suc k) (Turn token ((history st)\<lparr>messages := [first]\<rparr>))"
    "vqd st4 = [token, header_or_empty (net (length (sent st4) - 1))]"
    "history st4 = (history st)\<lparr>messages := [first]\<rparr>"
    by auto
  with st' tok ns show ?thesis
    by (auto simp: add_answer_def)
qed

text \<open>
  C6. \<open>reask_question 0\<close> on a history that has a message empties the ledger and sends a
  handshake first; every turn request that follows carries the handshake's token and a
  history of the original first message alone. When the call returns normally, the
  handshake has succeeded, at least one such turn request was sent, the ledger holds the
  handshake's token and the token of the turn, and the history is the first message and the
  new answer.
\<close>

theorem reask_first_turn:
  assumes "messages (history st) = first # rest"
  shows "(\<exists>k. sent (snd (reask_question dec net 0 st)) =
           sent st @ Handshake #
             replicate k (Turn (the (vqd_header (net (length (sent st)))))
                               ((history st)\<lparr>messages := [first]\<rparr>)))
       \<and> (fst (reask_question dec net 0 st) = Inr message \<longrightarrow>
           (\<exists>token t k.
               status (net (length (sent st))) \<noteq> 429
             \<and> vqd_header (net (length (sent st))) = Some token
             \<and> sent (snd (reask_question dec net 0 st)) =
                  sent st @ Handshake #
                    replicate (Suc k) (Turn token ((history st)\<lparr>messages := [first]\<rparr>))
             \<and> vqd (snd (reask_question dec net 0 st)) = [token, t]
             \<and> messages (history (snd (reask_question dec net 0 st))) =
                  [first, \<lparr>role = Assistant, content = message\<rparr>]))"
proof (intro conjI impI)
  show "\<exists>k. sent (snd (reask_question dec net 0 st)) =
           sent st @ Handshake #
             replicate k (Turn (the (vqd_header (net (length (sent st)))))
                               ((history st)\<lparr>messages := [first]\<rparr>))"
    by (rule reask_zero_sends[OF assms])
next
  assume "fst (reask_question dec net 0 st) = Inr message"
  then have "reask_question dec net 0 st = (Inr message, snd (reask_question dec net 0 st))"
    by (metis prod.collapse)
  from reask_zero_success[OF assms this]
  show "\<exists>token t k.
               status (net (length (sent st))) \<noteq> 429
             \<and> vqd_header (net (length (sent st))) = Some token
             \<and> sent (snd (reask_question dec net 0 st)) =
                  sent st @ Handshake #
                    replicate (Suc k) (Turn token ((history st)\<lparr>messages := [first]\<rparr>))
             \<and> vqd (snd (reask_question dec net 0 st)) = [token, t]
             \<and> messages (history (snd (reask_question dec net 0 st))) =
                  [first, \<lparr>role = Assistant, content = message\<rparr>]" .
qed

theorem reask_first_turn_witness:
  "\<exists>token t k.
      sent (snd (reask_question json_decode (always (ok hi_body (Some ''t3''))) 0 two_turns))
        = sent two_turns @ Handshake #
            replicate (Suc k) (Turn token ((history two_turns)\<lparr>messages := [\<lparr>role = User, content = ''q1''\<rparr>]\<rparr>))
    \<and> vqd (snd (reask_question json_decode (always (ok hi_body (Some ''t3''))) 0 two_turns))
        = [token, t]
    \<and> messages (history (snd (reask_question json_decode (always (ok hi_body (Some ''t3''))) 0 two_turns)))
        = [\<lparr>role = User, content = ''q1''\<rparr>, \<lparr>role = Assistant, content = ''Hi''\<rparr>]"
proof -
  let ?R = "reask_question json_decode (always (ok hi_body (Some ''t3''))) 0 two_turns"
  have r: "fst ?R = Inr ''Hi''"
    unfolding hi_body_def by code_simp
  have m: "messages (history two_turns) =
      \<lparr>role = User, content = ''q1''\<rparr> # [\<lparr>role = Assistant, content = ''a1''\<rparr>,
                             \<lparr>role = User, content = ''q2''\<rparr>, \<lparr>role = Assistant, content = ''a2''\<rparr>]"
    by (simp add: two_turns_def)
  from reask_first_turn[OF m, of json_decode "always (ok hi_body (Some ''t3''))" "''Hi''",
         THEN conjunct2, rule_format, OF r]
  show ?thesis
    by blast
qed

section \<open>Error records in the streamed turn\<close>

text \<open>
  C7 (the code at a failing input). The body holds an answer record and then a record with
  \<^verbatim>\<open>action: error\<close>, status 429, type \<^verbatim>\<open>ERR_CONVERSATION_LIMIT\<close> and a non-empty \<^verbatim>\<open>message\<close>.
  The streamed operation yields the message of the error record as content, raises
  nothing and stores \<^verbatim>\<open>Hilimit\<close> as the answer; the buffered operation raises
  \<open>ConversationLimitException\<close> on the same body.
\<close>

theorem stream_yields_error_record:
  "fst (ask_question_stream json_decode (always (ok conversation_limit_body (Some ''t1''))) ''hello''
          ((init ''m'' 3 10)\<lparr>vqd := [''t0'']\<rparr>))
     = ([PStr ''Hi'', PStr ''limit''], None)
   \<and> messages (history (snd (ask_question_stream json_decode
          (always (ok conversation_limit_body (Some ''t1''))) ''hello''
          ((init ''m'' 3 10)\<lparr>vqd := [''t0'']\<rparr>))))
     = [\<lparr>role = User, content = ''hello''\<rparr>, \<lparr>role = Assistant, content = ''Hilimit''\<rparr>]
   \<and> fst (ask_question json_decode (always (ok conversation_limit_body (Some ''t1''))) ''hello''
          ((init ''m'' 3 10)\<lparr>vqd := [''t0'']\<rparr>))
     = Inl (ConversationLimitException (Given (PStr ''ERR_CONVERSATION_LIMIT'')))"
  unfolding conversation_limit_body_def by code_simp

section \<open>The handshake\<close>

text \<open>
  C8 (as amended). On a handshake response with status 429, \<open>get_vqd\<close> raises
  \<open>RatelimitException\<close> (with the \<^verbatim>\<open>type\<close> of the body) when the body decodes to a JSON object,
  and the generic \<open>DuckChatException\<close> with the text of the body when it does not
  (\<^verbatim>\<open>UnicodeDecodeError\<close> when the body is not UTF-8 either). On any other status it raises
  \<^verbatim>\<open>DuckChatException("No x-vqd-4")\<close> when the response has no \<^verbatim>\<open>x-vqd-4\<close> header. In each of
  these cases the ledger is unchanged. Otherwise it returns and exactly the received token
  is appended to the ledger.
\<close>

theorem get_vqd_outcome:
  "(status (net (length (sent st))) = 429 \<and> dec (body (net (length (sent st)))) = Some (PDict kvs) \<longrightarrow>
      fst (get_vqd dec net st) = Inl (RatelimitException (Given (dict_get kvs ''type'' (PStr []))))
      \<and> vqd (snd (get_vqd dec net st)) = vqd st)
   \<and> (status (net (length (sent st))) = 429
        \<and> (\<forall>items. dec (body (net (length (sent st)))) \<noteq> Some (PDict items)) \<longrightarrow>
      fst (get_vqd dec net st) =
        Inl (if utf8_codes (map of_char (body (net (length (sent st)))))
             then DuckChatException (Text (body (net (length (sent st)))))
             else UnicodeDecodeError)
      \<and> vqd (snd (get_vqd dec net st)) = vqd st)
   \<and> (status (net (length (sent st))) \<noteq> 429 \<and> vqd_header (net (length (sent st))) = None \<longrightarrow>
      fst (get_vqd dec net st) = Inl (DuckChatException (Text ''No x-vqd-4''))
      \<and> vqd (snd (get_vqd dec net st)) = vqd st)
   \<and> (status (net (length (sent st))) \<noteq> 429 \<and> vqd_header (net (length (sent st))) = Some token \<longrightarrow>
      fst (get_vqd dec net st) = Inr ()
      \<and> vqd (snd (get_vqd dec net st)) = vqd st @ [token])"
  by (auto simp: get_vqd_def send_def Let_def raise_decoded_def decode_utf8_def
           split: option.splits pyval.splits)

lemma decode_rate_body:
  "json_decode ''{\"action\":\"error\",\"status\":429,\"type\":\"ERR_RATE\"}''
     = Some (PDict [(''action'', PStr ''error''), (''status'', PInt 429), (''type'', PStr ''ERR_RATE'')])"
  by code_simp

lemma decode_plain_text: "json_decode ''Too Many Requests'' = None"
  by code_simp

lemma utf8_plain_text: "utf8_codes (map of_char ''Too Many Requests'')"
  by code_simp

theorem get_vqd_outcome_witness:
  "fst (get_vqd json_decode
          (always \<lparr>status = 429, body = ''{\"action\":\"error\",\"status\":429,\"type\":\"ERR_RATE\"}'',
                   vqd_header = None\<rparr>) (init ''m'' 3 10))
     = Inl (RatelimitException (Given (PStr ''ERR_RATE'')))
   \<and> fst (get_vqd json_decode
          (always \<lparr>status = 429, body = ''Too Many Requests'', vqd_header = None\<rparr>) (init ''m'' 3 10))
     = Inl (DuckChatException (Text ''Too Many Requests''))
   \<and> vqd (snd (get_vqd json_decode
          (always \<lparr>status = 429, body = ''Too Many Requests'', vqd_header = None\<rparr>) (init ''m'' 3 10)))
     = []
   \<and> fst (get_vqd json_decode (always (ok [] None)) (init ''m'' 3 10))
     = Inl (DuckChatException (Text ''No x-vqd-4''))
   \<and> vqd (snd (get_vqd json_decode (always (ok [] (Some ''t0''))) (init ''m'' 3 10))) = [''t0'']"
  using get_vqd_outcome[where dec = json_decode and st = "init ''m'' 3 10"
          and net = "always \<lparr>status = 429, body = ''{\"action\":\"error\",\"status\":429,\"type\":\"ERR_RATE\"}'',
                   vqd_header = None\<rparr>"
          and kvs = "[(''action'', PStr ''error''), (''status'', PInt 429), (''type'', PStr ''ERR_RATE'')]"]
        get_vqd_outcome[where dec = json_decode and st = "init ''m'' 3 10"
          and net = "always \<lparr>status = 429, body = ''Too Many Requests'', vqd_header = None\<rparr>"]
        get_vqd_outcome[where dec = json_decode and st = "init ''m'' 3 10"
          and net = "always (ok [] None)"]
        get_vqd_outcome[where dec = json_decode and st = "init ''m'' 3 10"
          and net = "always (ok [] (Some ''t0''))" and token = "''t0''"]
  by (simp add: always_def init_def ok_sel decode_rate_body decode_plain_text utf8_plain_text
        dict_get_def)

text \<open>A handshake answered with status 429 and a body that is not JSON raises the generic
  \<open>DuckChatException\<close>, not \<open>RatelimitException\<close>.\<close>

theorem get_vqd_outcome_counterexample:
  "fst (get_vqd json_decode
          (always \<lparr>status = 429, body = ''Too Many Requests'', vqd_header = None\<rparr>) (init ''m'' 3 10))
     = Inl (DuckChatException (Text ''Too Many Requests''))"
  by code_simp

section \<open>Re-asking on an empty history\<close>

lemma rewind_empty_history:
  "messages (history st) = [] \<Longrightarrow>
   \<exists>st1. rewind dec net num st = (None, st1) \<and> sent st1 = sent st \<and> history st1 = history st"
  by (simp add: rewind_def Let_def)

text \<open>
  C9. On a history without messages, \<open>reask_question\<close> returns the empty string and
  \<open>reask_question_stream\<close> raises \<^verbatim>\<open>GeneratorExit("There is no history messages")\<close>; neither
  sends a request, and the history stays empty.
\<close>

theorem reask_empty_history:
  assumes "messages (history st) = []"
  shows "fst (reask_question dec net num st) = Inr []
       \<and> sent (snd (reask_question dec net num st)) = sent st
       \<and> history (snd (reask_question dec net num st)) = history st
       \<and> fst (reask_question_stream dec net num st)
           = ([], Some (GeneratorExit ''There is no history messages''))
       \<and> sent (snd (reask_question_stream dec net num st)) = sent st
       \<and> history (snd (reask_question_stream dec net num st)) = history st"
proof -
  from rewind_empty_history[OF assms] obtain st1 where
    "rewind dec net num st = (None, st1)" "sent st1 = sent st" "history st1 = history st"
    by blast
  then show ?thesis
    by (simp add: reask_question_def reask_question_stream_def)
qed

theorem reask_empty_history_witness:
  "fst (reask_question json_decode (always (ok hi_body None)) 0 (init ''m'' 3 10)) = Inr []
   \<and> sent (snd (reask_question json_decode (always (ok hi_body None)) 0 (init ''m'' 3 10))) = []
   \<and> fst (reask_question_stream json_decode (always (ok hi_body None)) 0 (init ''m'' 3 10))
       = ([], Some (GeneratorExit ''There is no history messages''))
   \<and> sent (snd (reask_question_stream json_decode (always (ok hi_body None)) 0 (init ''m'' 3 10))) = []"
  using reask_empty_history[of "init ''m'' 3 10" json_decode "always (ok hi_body None)" 0]
  by (simp add: init_def)

section \<open>A turn response without the token header\<close>

lemma ask_question_sends:
  assumes "vqd st \<noteq> []" and "0 < max_retries st"
  shows "\<exists>k. sent (snd (ask_question dec net query st)) =
           sent st @ replicate (Suc k) (Turn (last (vqd st)) (add_input (history st) query))"
proof -
  let ?s1 = "st\<lparr>history := add_input (history st) query\<rparr>"
  have "vqd ?s1 \<noteq> []" using assms by simp
  from get_answer_from_sends[OF this, of dec net 0] assms obtain k where
    k: "sent (snd (get_answer_from dec net 0 ?s1)) =
          sent st @ replicate k (Turn (last (vqd st)) (add_input (history st) query))" "0 < k"
    by auto
  then obtain j where "k = Suc j" by (cases k) auto
  with k have "sent (snd (ask_question dec net query st)) =
      sent st @ replicate (Suc j) (Turn (last (vqd st)) (add_input (history st) query))"
    using assms by (auto simp: ask_question_def get_answer_def split: prod.splits sum.splits)
  then show ?thesis by blast
qed

lemma stream_answer_frame:
  assumes "stream_answer dec net st = ((ys, err), st1)"
  shows "history st1 = history st"
    and "vqd st \<noteq> [] \<Longrightarrow> sent st1 = sent st @ [Turn (last (vqd st)) (history st)]"
    and "err = None \<Longrightarrow> vqd st \<noteq> [] \<and> vqd st1 = vqd st @ [header_or_empty (net (length (sent st)))]"
  using assms
  by (auto simp: stream_answer_def send_def Let_def split: if_splits prod.splits option.splits)

lemma finish_stream_frame:
  assumes "finish_stream dec net st = ((ys, err), st1)"
  shows "vqd st \<noteq> [] \<Longrightarrow> sent st1 = sent st @ [Turn (last (vqd st)) (history st)]"
    and "err = None \<Longrightarrow> vqd st \<noteq> [] \<and> vqd st1 = vqd st @ [header_or_empty (net (length (sent st)))]"
proof -
  obtain zs e s where s: "stream_answer dec net st = ((zs, e), s)"
    by (metis prod.collapse)
  note fr = stream_answer_frame[OF s]
  show "vqd st \<noteq> [] \<Longrightarrow> sent st1 = sent st @ [Turn (last (vqd st)) (history st)]"
    using assms s fr(2) by (auto simp: finish_stream_def split: option.splits sum.splits)
  show "err = None \<Longrightarrow> vqd st \<noteq> [] \<and> vqd st1 = vqd st @ [header_or_empty (net (length (sent st)))]"
    using assms s fr(3) by (auto simp: finish_stream_def split: option.splits sum.splits)
qed

lemma ask_question_missing_header:
  assumes "ask_question dec net query st = (Inr message, st')"
    and "vqd_header (net (length (sent st') - 1)) = None"
  shows "vqd st' =
           (if vqd st = [] then [the (vqd_header (net (length (sent st))))] else vqd st) @ [[]]"
    and "0 < max_retries st'"
proof -
  obtain r0 st1 where h: "(if vqd st = [] then get_vqd dec net st else (Inr (), st)) = (r0, st1)"
    by (cases "if vqd st = [] then get_vqd dec net st else (Inr (), st)")
  from assms h obtain u where r0: "r0 = Inr u"
    by (cases r0) (auto simp: ask_question_def)
  let ?st1 = "st1\<lparr>history := add_input (history st1) query\<rparr>"
  obtain st2 where g: "get_answer_from dec net 0 ?st1 = (Inr message, st2)"
    and st': "st' = st2\<lparr>history := add_answer (history st2) message\<rparr>"
    using assms h r0
    by (auto simp: ask_question_def get_answer_def split: prod.splits sum.splits)
  note ga = get_answer_from_success[OF g]
  have v1: "vqd st1 = (if vqd st = [] then [the (vqd_header (net (length (sent st))))] else vqd st)"
    using h r0 get_vqd_frame(4)[of dec net st r0 st1] by (auto split: if_splits)
  show "vqd st' =
           (if vqd st = [] then [the (vqd_header (net (length (sent st))))] else vqd st) @ [[]]"
    using ga st' v1 assms(2) by (simp add: header_or_empty_def)
  show "0 < max_retries st'"
    using get_answer_from_success_attempts[OF g] ga st' by simp
qed

lemma ask_question_stream_missing_header:
  assumes "ask_question_stream dec net query st = ((ys, None), st')"
    and "vqd_header (net (length (sent st') - 1)) = None"
  shows "vqd st' =
           (if vqd st = [] then [the (vqd_header (net (length (sent st))))] else vqd st) @ [[]]"
proof -
  obtain r0 st1 where h: "(if vqd st = [] then get_vqd dec net st else (Inr (), st)) = (r0, st1)"
    by (cases "if vqd st = [] then get_vqd dec net st else (Inr (), st)")
  from assms h obtain u where r0: "r0 = Inr u"
    by (cases r0) (auto simp: ask_question_stream_def)
  let ?st1 = "st1\<lparr>history := add_input (history st1) query\<rparr>"
  have f: "finish_stream dec net ?st1 = ((ys, None), st')"
    using assms h r0 by (auto simp: ask_question_stream_def)
  note fr = finish_stream_frame[OF f]
  have v1: "vqd st1 = (if vqd st = [] then [the (vqd_header (net (length (sent st))))] else vqd st)"
    using h r0 get_vqd_frame(4)[of dec net st r0 st1] by (auto split: if_splits)
  from fr(2) have v: "vqd ?st1 \<noteq> []"
    and v': "vqd st' = vqd ?st1 @ [header_or_empty (net (length (sent ?st1)))]"
    by auto
  from fr(1)[OF v] have "length (sent st') - 1 = length (sent ?st1)" by simp
  with v' v1 assms(2) show ?thesis
    by (simp add: header_or_empty_def)
qed

lemma ask_question_stream_sends:
  assumes "vqd st \<noteq> []"
  shows "sent (snd (ask_question_stream dec net query st)) =
           sent st @ [Turn (last (vqd st)) (add_input (history st) query)]"
proof -
  let ?s1 = "st\<lparr>history := add_input (history st) query\<rparr>"
  obtain ys e s where f: "finish_stream dec net ?s1 = ((ys, e), s)"
    by (metis prod.collapse)
  from finish_stream_frame(1)[OF f] assms f show ?thesis
    by (simp add: ask_question_stream_def)
qed

lemma later_turn_no_header:
  "fst (ask_question json_decode (always (ok hi_body None)) ''hello''
          ((init ''m'' 3 10)\<lparr>vqd := [''t0'']\<rparr>)) = Inr ''Hi''"
  unfolding hi_body_def by code_simp

lemma later_stream_no_header:
  "fst (ask_question_stream json_decode (always (ok hi_body None)) ''hello''
          ((init ''m'' 3 10)\<lparr>vqd := [''t0'']\<rparr>)) = ([PStr ''Hi''], None)"
  unfolding hi_body_def by code_simp

text \<open>
  C10. When a turn succeeds and the response of its last request has no \<^verbatim>\<open>x-vqd-4\<close> header,
  the empty string is appended to the ledger (after the handshake's token, when the ledger
  was empty at the call), in the buffered and in the streamed operation. The next turn
  then sends its request with the empty token, and no handshake: every request it adds
  is a turn request whose token is empty.
\<close>

theorem missing_header_empty_token:
  "(ask_question dec net query st = (Inr message, st')
      \<and> vqd_header (net (length (sent st') - 1)) = None \<longrightarrow>
        vqd st' =
          (if vqd st = [] then [the (vqd_header (net (length (sent st))))] else vqd st) @ [[]]
      \<and> (\<exists>k. sent (snd (ask_question dec later_net later_query st')) =
               sent st' @ replicate (Suc k) (Turn [] (add_input (history st') later_query))))
   \<and> (ask_question_stream dec net query st = ((ys, None), st')
      \<and> vqd_header (net (length (sent st') - 1)) = None \<longrightarrow>
        vqd st' =
          (if vqd st = [] then [the (vqd_header (net (length (sent st))))] else vqd st) @ [[]]
      \<and> sent (snd (ask_question_stream dec later_net later_query st')) =
               sent st' @ [Turn [] (add_input (history st') later_query)])"
proof (intro conjI impI)
  assume a: "ask_question dec net query st = (Inr message, st')
      \<and> vqd_header (net (length (sent st') - 1)) = None"
  then have v: "vqd st' =
          (if vqd st = [] then [the (vqd_header (net (length (sent st))))] else vqd st) @ [[]]"
    and m: "0 < max_retries st'"
    using ask_question_missing_header by blast+
  show "vqd st' =
          (if vqd st = [] then [the (vqd_header (net (length (sent st))))] else vqd st) @ [[]]"
    by (fact v)
  have "vqd st' \<noteq> []" "last (vqd st') = []"
    using v by simp_all
  with ask_question_sends[OF this(1) m, of dec later_net later_query]
  show "\<exists>k. sent (snd (ask_question dec later_net later_query st')) =
               sent st' @ replicate (Suc k) (Turn [] (add_input (history st') later_query))"
    by simp
next
  assume a: "ask_question_stream dec net query st = ((ys, None), st')
      \<and> vqd_header (net (length (sent st') - 1)) = None"
  then have v: "vqd st' =
          (if vqd st = [] then [the (vqd_header (net (length (sent st))))] else vqd st) @ [[]]"
    using ask_question_stream_missing_header by blast
  show "vqd st' =
          (if vqd st = [] then [the (vqd_header (net (length (sent st))))] else vqd st) @ [[]]"
    by (fact v)
  have "vqd st' \<noteq> []" "last (vqd st') = []"
    using v by simp_all
  with ask_question_stream_sends[OF this(1), of dec later_net later_query]
  show "sent (snd (ask_question_stream dec later_net later_query st')) =
               sent st' @ [Turn [] (add_input (history st') later_query)]"
    by simp
qed

theorem missing_header_empty_token_witness:
  "vqd (snd (ask_question json_decode (always (ok hi_body None)) ''hello''
          ((init ''m'' 3 10)\<lparr>vqd := [''t0'']\<rparr>))) = [''t0'', []]
   \<and> (\<exists>k. sent (snd (ask_question json_decode (always (ok hi_body None)) ''again''
          (snd (ask_question json_decode (always (ok hi_body None)) ''hello''
            ((init ''m'' 3 10)\<lparr>vqd := [''t0'']\<rparr>))))) =
        sent (snd (ask_question json_decode (always (ok hi_body None)) ''hello''
            ((init ''m'' 3 10)\<lparr>vqd := [''t0'']\<rparr>)))
        @ replicate (Suc k) (Turn []
            (add_input (history (snd (ask_question json_decode (always (ok hi_body None)) ''hello''
            ((init ''m'' 3 10)\<lparr>vqd := [''t0'']\<rparr>)))) ''again'')))
   \<and> vqd (snd (ask_question_stream json_decode (always (ok hi_body None)) ''hello''
          ((init ''m'' 3 10)\<lparr>vqd := [''t0'']\<rparr>))) = [''t0'', []]
   \<and> sent (snd (ask_question_stream json_decode (always (ok hi_body None)) ''again''
          (snd (ask_question_stream json_decode (always (ok hi_body None)) ''hello''
            ((init ''m'' 3 10)\<lparr>vqd := [''t0'']\<rparr>))))) =
        sent (snd (ask_question_stream json_decode (always (ok hi_body None)) ''hello''
            ((init ''m'' 3 10)\<lparr>vqd := [''t0'']\<rparr>)))
        @ [Turn [] (add_input (history (snd (ask_question_stream json_decode
            (always (ok hi_body None)) ''hello'' ((init ''m'' 3 10)\<lparr>vqd := [''t0'']\<rparr>)))) ''again'')]"
proof -
  let ?N = "always (ok hi_body None)"
  let ?s = "(init ''m'' 3 10)\<lparr>vqd := [''t0'']\<rparr>"
  let ?A = "ask_question json_decode ?N ''hello'' ?s"
  let ?B = "ask_question_stream json_decode ?N ''hello'' ?s"
  have a: "?A = (Inr ''Hi'', snd ?A)"
    using later_turn_no_header by (metis prod.collapse)
  have b: "?B = (([PStr ''Hi''], None), snd ?B)"
    using later_stream_no_header by (metis prod.collapse)
  have h: "vqd_header (?N n) = None" for n
    by (simp add: always_def ok_sel)
  have v: "vqd ?s = [''t0'']"
    by (simp add: init_def)
  note T1 = missing_header_empty_token[where dec = json_decode and net = ?N and query = "''hello''"
      and st = ?s and message = "''Hi''" and st' = "snd ?A" and later_net = ?N
      and later_query = "''again''", THEN conjunct1, rule_format, OF conjI, OF a h]
  note T2 = missing_header_empty_token[where dec = json_decode and net = ?N and query = "''hello''"
      and st = ?s and ys = "[PStr ''Hi'']" and st' = "snd ?B" and later_net = ?N
      and later_query = "''again''", THEN conjunct2, rule_format, OF conjI, OF b h]
  show ?thesis
    using T1 T2 unfolding v by simp
qed

end
